theory Spec2Isabelle
  imports Complex_Main
begin

section \<open>The pulse-simulator backend-model notebook\<close>

text \<open>
  The repository is one Jupyter notebook,
  \<^verbatim>\<open>tutorials/circuits_advanced/12_pulse_simulator_backend_model.ipynb\<close>.
  Its code cells with execution counts 4 to 10 (cells 9 to 21 of the file) are a
  straight-line Python script over the Qiskit libraries. The script is embedded here as
  a function of the library it calls: every Qiskit entry point, and numpy's \<^verbatim>\<open>linspace\<close>,
  is a field of a record \<open>library\<close>, returning either an exception (\<open>Inl\<close>) or a value
  (\<open>Inr\<close>). The import
  cells (execution counts 1 to 3) bind the names that this record stands for. The closing
  cell (execution count 11) displays the version table and the copyright notice of the
  installed Qiskit; it takes no part in the flow and is not modelled.

  Python floats are modelled as real numbers and Python integers as \<open>int\<close>. Objects of the
  libraries whose structure the notebook never looks into (schedules, the instruction
  schedule map, the system model, the simulator, the Qobj, the job, the result, the
  fitter) are values of one type variable \<open>'o\<close>; exceptions are values of \<open>'e\<close>.
\<close>

subsection \<open>The mock backend object\<close>

text \<open>
  The notebook reads and writes these attributes of the \<^verbatim>\<open>FakeArmonk\<close> object:
  \<^verbatim>\<open>defaults().qubit_freq_est\<close>, \<^verbatim>\<open>defaults().instruction_schedule_map\<close>,
  \<^verbatim>\<open>configuration().hamiltonian\<close> (a dictionary), \<^verbatim>\<open>configuration().dt\<close> and
  \<^verbatim>\<open>configuration().meas_map\<close>. All remaining attributes of the three objects are kept
  in the \<open>_other\<close> fields. The accessor methods \<^verbatim>\<open>defaults()\<close> and \<^verbatim>\<open>configuration()\<close>
  hand out the backend's own defaults and configuration objects, so they are the selectors
  of the record, and an assignment through them updates the backend. The function
  \<open>notebook\<close> takes these accessor calls to return; \<open>notebook_calls\<close>, further down, has
  them as calls that may raise.
\<close>

datatype 'o hval =
    Terms "string list"
  | Coeffs "(string \<times> real) list"
  | Dims "(string \<times> int) list"
  | Opaque 'o

record 'o pulse_defaults =
  qubit_freq_est :: "real list"
  instruction_schedule_map :: 'o
  defaults_other :: "string \<rightharpoonup> 'o"

record 'o backend_configuration =
  hamiltonian :: "string \<rightharpoonup> 'o hval"
  dt :: real
  meas_map :: 'o
  configuration_other :: "string \<rightharpoonup> 'o"

record 'o backend =
  defaults :: "'o pulse_defaults"
  configuration :: "'o backend_configuration"
  backend_other :: "string \<rightharpoonup> 'o"

subsection \<open>The library the notebook calls\<close>

text \<open>
  One field for each Qiskit entry point the cells call, and one for \<^verbatim>\<open>np.linspace\<close>, with
  the arguments in the order in which the notebook writes them. A call is a function of
  its arguments: it reads the objects it is given and assigns nothing to the backend.
  What \<^verbatim>\<open>np.linspace\<close> computes is numpy's business and is left open, like the rest of the
  library.

  The last two fields are the accessor methods of the backend, as far as they can fail:
  the exception, if any, that \<^verbatim>\<open>armonk_backend.defaults()\<close> and
  \<^verbatim>\<open>armonk_backend.configuration()\<close> raise on a backend. When they return, they hand out
  the backend's own objects.
\<close>

record ('e, 'o) library =
  FakeArmonk :: "'e + 'o backend"
  from_backend :: "'o backend \<Rightarrow> 'e + 'o"
  DriveChannel :: "int \<Rightarrow> 'e + 'o"
  rabi_schedules ::
    "real list \<Rightarrow> int list \<Rightarrow> int \<Rightarrow> int \<Rightarrow> 'o list \<Rightarrow> 'o \<Rightarrow> 'o \<Rightarrow> 'e + 'o list \<times> 'o"
  PulseSimulator :: "'e + 'o"
  assemble :: "'o list \<Rightarrow> 'o \<Rightarrow> int \<Rightarrow> string \<Rightarrow> int \<Rightarrow> 'e + 'o"
  run :: "'o \<Rightarrow> 'o \<Rightarrow> 'o \<Rightarrow> 'e + 'o"
  result :: "'o \<Rightarrow> 'e + 'o"
  RabiFitter :: "'o \<Rightarrow> 'o \<Rightarrow> int list \<Rightarrow> real list \<Rightarrow> 'e + 'o"
  pi_amplitude :: "'o \<Rightarrow> int \<Rightarrow> 'e + real"
  plot :: "'o \<Rightarrow> int \<Rightarrow> 'e + 'o"
  linspace :: "real \<Rightarrow> real \<Rightarrow> int \<Rightarrow> 'e + real list"
  defaults_raises :: "'o backend \<Rightarrow> 'e option"
  configuration_raises :: "'o backend \<Rightarrow> 'e option"

subsection \<open>Effects: the trace of a run\<close>

text \<open>
  What a run does to the world outside the notebook's variables is recorded as a trace:
  one event for each call into the library, with the arguments passed, one for each
  assignment to an attribute or dictionary item of the backend, one for the line printed,
  and \<open>Raised e\<close> when a library call raises \<open>e\<close>.
\<close>

datatype ('e, 'o) event =
    Call_FakeArmonk
  | Assign_qubit_freq_est "real list"
  | Assign_hamiltonian string "'o hval"
  | Assign_dt real
  | Call_from_backend "'o backend"
  | Call_linspace real real int
  | Call_DriveChannel int
  | Call_rabi_schedules "real list" "int list" int int "'o list" 'o 'o
  | Call_PulseSimulator
  | Call_assemble "'o list" 'o int string int
  | Call_run 'o 'o 'o
  | Call_result 'o
  | Call_RabiFitter 'o 'o "int list" "real list"
  | Call_pi_amplitude 'o int
  | Call_plot 'o int
  | Print string real
  | Call_defaults "'o backend"
  | Call_configuration "'o backend"
  | Raised 'e

text \<open>
  A computation yields an exception or a value, and the events it emitted. An exception
  ends the computation: Python has no handler to resume at unless the code installs one,
  and the notebook has no \<^verbatim>\<open>try\<close> statement.
\<close>

type_synonym ('e, 'o, 'a) py = "('e + 'a) \<times> ('e, 'o) event list"

definition ret :: "'a \<Rightarrow> ('e, 'o, 'a) py" where
  "ret x = (Inr x, [])"

definition emit :: "('e, 'o) event \<Rightarrow> 'a \<Rightarrow> ('e, 'o, 'a) py" where
  "emit ev x = (Inr x, [ev])"

definition call :: "('e, 'o) event \<Rightarrow> 'e + 'a \<Rightarrow> ('e, 'o, 'a) py" where
  "call ev r = (case r of Inl e \<Rightarrow> (Inl e, [ev, Raised e]) | Inr x \<Rightarrow> (Inr x, [ev]))"

definition bnd :: "('e, 'o, 'a) py \<Rightarrow> ('a \<Rightarrow> ('e, 'o, 'b) py) \<Rightarrow> ('e, 'o, 'b) py" where
  "bnd m f =
     (case m of
        (Inl e, t) \<Rightarrow> (Inl e, t)
      | (Inr x, t) \<Rightarrow> (case f x of (r, t') \<Rightarrow> (r, t @ t')))"

subsection \<open>The statements that touch the library\<close>

definition call_FakeArmonk :: "('e, 'o) library \<Rightarrow> ('e, 'o, 'o backend) py" where
  "call_FakeArmonk lib = call Call_FakeArmonk (FakeArmonk lib)"

definition call_from_backend :: "('e, 'o) library \<Rightarrow> 'o backend \<Rightarrow> ('e, 'o, 'o) py" where
  "call_from_backend lib b = call (Call_from_backend b) (from_backend lib b)"

definition call_linspace ::
  "('e, 'o) library \<Rightarrow> real \<Rightarrow> real \<Rightarrow> int \<Rightarrow> ('e, 'o, real list) py" where
  "call_linspace lib start stop num =
     call (Call_linspace start stop num) (linspace lib start stop num)"

definition call_DriveChannel :: "('e, 'o) library \<Rightarrow> int \<Rightarrow> ('e, 'o, 'o) py" where
  "call_DriveChannel lib i = call (Call_DriveChannel i) (DriveChannel lib i)"

definition call_rabi_schedules ::
  "('e, 'o) library \<Rightarrow> real list \<Rightarrow> int list \<Rightarrow> int \<Rightarrow> int \<Rightarrow> 'o list \<Rightarrow> 'o \<Rightarrow> 'o
     \<Rightarrow> ('e, 'o, 'o list \<times> 'o) py" where
  "call_rabi_schedules lib amp_list qs pulse_width pulse_sigma drives inst_map mm =
     call (Call_rabi_schedules amp_list qs pulse_width pulse_sigma drives inst_map mm)
          (rabi_schedules lib amp_list qs pulse_width pulse_sigma drives inst_map mm)"

definition call_PulseSimulator :: "('e, 'o) library \<Rightarrow> ('e, 'o, 'o) py" where
  "call_PulseSimulator lib = call Call_PulseSimulator (PulseSimulator lib)"

definition call_assemble ::
  "('e, 'o) library \<Rightarrow> 'o list \<Rightarrow> 'o \<Rightarrow> int \<Rightarrow> string \<Rightarrow> int \<Rightarrow> ('e, 'o, 'o) py" where
  "call_assemble lib scheds sim meas_level meas_return shots =
     call (Call_assemble scheds sim meas_level meas_return shots)
          (assemble lib scheds sim meas_level meas_return shots)"

definition call_run :: "('e, 'o) library \<Rightarrow> 'o \<Rightarrow> 'o \<Rightarrow> 'o \<Rightarrow> ('e, 'o, 'o) py" where
  "call_run lib sim qobj model = call (Call_run sim qobj model) (run lib sim qobj model)"

definition call_result :: "('e, 'o) library \<Rightarrow> 'o \<Rightarrow> ('e, 'o, 'o) py" where
  "call_result lib job = call (Call_result job) (result lib job)"

definition call_RabiFitter ::
  "('e, 'o) library \<Rightarrow> 'o \<Rightarrow> 'o \<Rightarrow> int list \<Rightarrow> real list \<Rightarrow> ('e, 'o, 'o) py" where
  "call_RabiFitter lib res xs qs fit_p0 =
     call (Call_RabiFitter res xs qs fit_p0) (RabiFitter lib res xs qs fit_p0)"

definition call_pi_amplitude :: "('e, 'o) library \<Rightarrow> 'o \<Rightarrow> int \<Rightarrow> ('e, 'o, real) py" where
  "call_pi_amplitude lib fit q = call (Call_pi_amplitude fit q) (pi_amplitude lib fit q)"

definition call_plot :: "('e, 'o) library \<Rightarrow> 'o \<Rightarrow> int \<Rightarrow> ('e, 'o, 'o) py" where
  "call_plot lib fit q = call (Call_plot fit q) (plot lib fit q)"

text \<open>The three kinds of assignment of the override cell, and the print statement.\<close>

definition assign_qubit_freq_est :: "'o backend \<Rightarrow> real list \<Rightarrow> ('e, 'o, 'o backend) py" where
  "assign_qubit_freq_est b v =
     emit (Assign_qubit_freq_est v) (b\<lparr>defaults := (defaults b)\<lparr>qubit_freq_est := v\<rparr>\<rparr>)"

definition assign_hamiltonian :: "'o backend \<Rightarrow> string \<Rightarrow> 'o hval \<Rightarrow> ('e, 'o, 'o backend) py" where
  "assign_hamiltonian b k v =
     emit (Assign_hamiltonian k v)
          (b\<lparr>configuration :=
               (configuration b)\<lparr>hamiltonian := (hamiltonian (configuration b))(k \<mapsto> v)\<rparr>\<rparr>)"

definition assign_dt :: "'o backend \<Rightarrow> real \<Rightarrow> ('e, 'o, 'o backend) py" where
  "assign_dt b v = emit (Assign_dt v) (b\<lparr>configuration := (configuration b)\<lparr>dt := v\<rparr>\<rparr>)"

definition print :: "string \<Rightarrow> real \<Rightarrow> ('e, 'o, unit) py" where
  "print fmt x = emit (Print fmt x) ()"

subsection \<open>The code cells\<close>

text \<open>Execution count 4: \<^verbatim>\<open>armonk_backend = FakeArmonk()\<close>.\<close>

definition cell_4 :: "('e, 'o) library \<Rightarrow> ('e, 'o, 'o backend) py" where
  "cell_4 lib = call_FakeArmonk lib"

text \<open>
  Execution count 5, the override of the Hamiltonian parameters. It yields the values of
  \<^verbatim>\<open>freq_est\<close> and \<^verbatim>\<open>drive_est\<close> and the backend after the five assignments.
\<close>

definition cell_5 :: "'o backend \<Rightarrow> ('e, 'o, real \<times> real \<times> 'o backend) py" where
  "cell_5 armonk_backend =
     (let freq_est = 4.97 * 10 ^ 9;
          drive_est = 6.35 * 10 ^ 7
      in bnd (assign_qubit_freq_est armonk_backend [freq_est]) (\<lambda>b1.
         bnd (assign_hamiltonian b1 ''h_str''
                (Terms [''wq0*0.5*(I0-Z0)'', ''omegad0*X0||D0''])) (\<lambda>b2.
         bnd (assign_hamiltonian b2 ''vars''
                (Coeffs [(''wq0'', 2 * pi * freq_est), (''omegad0'', drive_est)])) (\<lambda>b3.
         bnd (assign_hamiltonian b3 ''qub'' (Dims [(''0'', 2)])) (\<lambda>b4.
         bnd (assign_dt b4 (2.2222222222222221 / 10 ^ 10)) (\<lambda>b5.
         ret (freq_est, drive_est, b5)))))))"

text \<open>Execution count 6: \<^verbatim>\<open>armonk_model = PulseSystemModel.from_backend(armonk_backend)\<close>.\<close>

definition cell_6 :: "('e, 'o) library \<Rightarrow> 'o backend \<Rightarrow> ('e, 'o, 'o) py" where
  "cell_6 lib armonk_backend = call_from_backend lib armonk_backend"

text \<open>
  Execution count 7, the Rabi schedules. The cell binds \<^verbatim>\<open>qubits\<close>, \<^verbatim>\<open>num_exps\<close>,
  \<^verbatim>\<open>drive_amps\<close>, \<^verbatim>\<open>drive_duration\<close>, \<^verbatim>\<open>drive_sigma\<close>, \<^verbatim>\<open>drive_channels\<close>, and rebinds the
  name \<^verbatim>\<open>rabi_schedules\<close> to the list of schedules, next to \<^verbatim>\<open>xdata\<close>.
\<close>

record 'o rabi_setup =
  qubits :: "int list"
  num_exps :: int
  drive_amps :: "real list"
  drive_duration :: int
  drive_sigma :: int
  drive_channels :: "'o list"
  rabi_schedules_list :: "'o list"
  xdata :: 'o

definition cell_7 :: "('e, 'o) library \<Rightarrow> 'o backend \<Rightarrow> ('e, 'o, 'o rabi_setup) py" where
  "cell_7 lib armonk_backend =
     (let qs = [0];
          n = 64
      in bnd (call_linspace lib 0 1.0 n) (\<lambda>amps.
         let duration = 2048;
             sigma = 256
         in bnd (call_DriveChannel lib 0) (\<lambda>ch.
            let channels = [ch]
            in bnd (call_rabi_schedules lib amps qs duration sigma channels
                      (instruction_schedule_map (defaults armonk_backend))
                      (meas_map (configuration armonk_backend))) (\<lambda>(scheds, xs).
               ret \<lparr>qubits = qs, num_exps = n, drive_amps = amps, drive_duration = duration,
                    drive_sigma = sigma, drive_channels = channels,
                    rabi_schedules_list = scheds, xdata = xs\<rparr>))))"

text \<open>Execution count 8: the simulator is constructed and the schedules are assembled.\<close>

definition cell_8 :: "('e, 'o) library \<Rightarrow> 'o list \<Rightarrow> ('e, 'o, 'o \<times> 'o) py" where
  "cell_8 lib scheds =
     bnd (call_PulseSimulator lib) (\<lambda>sim.
     bnd (call_assemble lib scheds sim 1 ''avg'' 512) (\<lambda>qobj.
     ret (sim, qobj)))"

text \<open>
  Execution count 9:
  \<^verbatim>\<open>sim_result = backend_sim.run(rabi_qobj, armonk_model).result()\<close>.
\<close>

definition cell_9 :: "('e, 'o) library \<Rightarrow> 'o \<Rightarrow> 'o \<Rightarrow> 'o \<Rightarrow> ('e, 'o, 'o) py" where
  "cell_9 lib sim qobj model =
     bnd (call_run lib sim qobj model) (\<lambda>job.
     call_result lib job)"

text \<open>Execution count 10: the fit, the pi amplitude, the plot and the printed line.\<close>

definition cell_10 ::
  "('e, 'o) library \<Rightarrow> 'o \<Rightarrow> 'o \<Rightarrow> int list \<Rightarrow> ('e, 'o, 'o \<times> real) py" where
  "cell_10 lib res xs qs =
     bnd (call_RabiFitter lib res xs qs [1.5, 2, 0, 0]) (\<lambda>fit.
     bnd (call_pi_amplitude lib fit 0) (\<lambda>amp.
     bnd (call_plot lib fit 0) (\<lambda>_.
     bnd (print ''Pi Amp: %f'' amp) (\<lambda>_.
     ret (fit, amp)))))"

subsection \<open>The two cells with their accessor calls\<close>

text \<open>
  The override cell calls \<^verbatim>\<open>armonk_backend.defaults()\<close> once and
  \<^verbatim>\<open>armonk_backend.configuration()\<close> four times, once in each assignment; the schedule
  cell calls each of them once, for the arguments \<^verbatim>\<open>inst_map\<close> and \<^verbatim>\<open>meas_map\<close>. Here these
  seven calls are calls like the others: each leaves an event and may raise. When an
  accessor returns, it hands out the backend's own object. The assignments and the print
  statement are statements and a builtin of Python, not calls into a library.
\<close>

definition call_defaults ::
  "('e, 'o) library \<Rightarrow> 'o backend \<Rightarrow> ('e, 'o, 'o pulse_defaults) py" where
  "call_defaults lib b =
     call (Call_defaults b)
          (case defaults_raises lib b of Some e \<Rightarrow> Inl e | None \<Rightarrow> Inr (defaults b))"

definition call_configuration ::
  "('e, 'o) library \<Rightarrow> 'o backend \<Rightarrow> ('e, 'o, 'o backend_configuration) py" where
  "call_configuration lib b =
     call (Call_configuration b)
          (case configuration_raises lib b of Some e \<Rightarrow> Inl e | None \<Rightarrow> Inr (configuration b))"

definition cell_5_calls ::
  "('e, 'o) library \<Rightarrow> 'o backend \<Rightarrow> ('e, 'o, real \<times> real \<times> 'o backend) py" where
  "cell_5_calls lib armonk_backend =
     (let freq_est = 4.97 * 10 ^ 9;
          drive_est = 6.35 * 10 ^ 7
      in bnd (call_defaults lib armonk_backend) (\<lambda>_.
         bnd (assign_qubit_freq_est armonk_backend [freq_est]) (\<lambda>b1.
         bnd (call_configuration lib b1) (\<lambda>_.
         bnd (assign_hamiltonian b1 ''h_str''
                (Terms [''wq0*0.5*(I0-Z0)'', ''omegad0*X0||D0''])) (\<lambda>b2.
         bnd (call_configuration lib b2) (\<lambda>_.
         bnd (assign_hamiltonian b2 ''vars''
                (Coeffs [(''wq0'', 2 * pi * freq_est), (''omegad0'', drive_est)])) (\<lambda>b3.
         bnd (call_configuration lib b3) (\<lambda>_.
         bnd (assign_hamiltonian b3 ''qub'' (Dims [(''0'', 2)])) (\<lambda>b4.
         bnd (call_configuration lib b4) (\<lambda>_.
         bnd (assign_dt b4 (2.2222222222222221 / 10 ^ 10)) (\<lambda>b5.
         ret (freq_est, drive_est, b5))))))))))))"

definition cell_7_calls :: "('e, 'o) library \<Rightarrow> 'o backend \<Rightarrow> ('e, 'o, 'o rabi_setup) py" where
  "cell_7_calls lib armonk_backend =
     (let qs = [0];
          n = 64
      in bnd (call_linspace lib 0 1.0 n) (\<lambda>amps.
         let duration = 2048;
             sigma = 256
         in bnd (call_DriveChannel lib 0) (\<lambda>ch.
            let channels = [ch]
            in bnd (call_defaults lib armonk_backend) (\<lambda>d.
               bnd (call_configuration lib armonk_backend) (\<lambda>c.
               bnd (call_rabi_schedules lib amps qs duration sigma channels
                      (instruction_schedule_map d) (meas_map c)) (\<lambda>(scheds, xs).
               ret \<lparr>qubits = qs, num_exps = n, drive_amps = amps, drive_duration = duration,
                    drive_sigma = sigma, drive_channels = channels,
                    rabi_schedules_list = scheds, xdata = xs\<rparr>))))))"

subsection \<open>The notebook, run from top to bottom\<close>

text \<open>The variables of the Python process after the last cell.\<close>

record 'o namespace =
  armonk_backend :: "'o backend"
  freq_est :: real
  drive_est :: real
  armonk_model :: 'o
  rabi :: "'o rabi_setup"
  backend_sim :: 'o
  rabi_qobj :: 'o
  sim_result :: 'o
  rabi_fit :: 'o
  pi_amp :: real

definition notebook :: "('e, 'o) library \<Rightarrow> ('e, 'o, 'o namespace) py" where
  "notebook lib =
     bnd (cell_4 lib) (\<lambda>b0.
     bnd (cell_5 b0) (\<lambda>(f, d, b).
     bnd (cell_6 lib b) (\<lambda>model.
     bnd (cell_7 lib b) (\<lambda>setup.
     bnd (cell_8 lib (rabi_schedules_list setup)) (\<lambda>(sim, qobj).
     bnd (cell_9 lib sim qobj model) (\<lambda>res.
     bnd (cell_10 lib res (xdata setup) (qubits setup)) (\<lambda>(fit, amp).
     ret \<lparr>armonk_backend = b, freq_est = f, drive_est = d, armonk_model = model,
          rabi = setup, backend_sim = sim, rabi_qobj = qobj, sim_result = res,
          rabi_fit = fit, pi_amp = amp\<rparr>)))))))"

subsection \<open>The run with the accessor calls\<close>

definition notebook_calls :: "('e, 'o) library \<Rightarrow> ('e, 'o, 'o namespace) py" where
  "notebook_calls lib =
     bnd (cell_4 lib) (\<lambda>b0.
     bnd (cell_5_calls lib b0) (\<lambda>(f, d, b).
     bnd (cell_6 lib b) (\<lambda>model.
     bnd (cell_7_calls lib b) (\<lambda>setup.
     bnd (cell_8 lib (rabi_schedules_list setup)) (\<lambda>(sim, qobj).
     bnd (cell_9 lib sim qobj model) (\<lambda>res.
     bnd (cell_10 lib res (xdata setup) (qubits setup)) (\<lambda>(fit, amp).
     ret \<lparr>armonk_backend = b, freq_est = f, drive_est = d, armonk_model = model,
          rabi = setup, backend_sim = sim, rabi_qobj = qobj, sim_result = res,
          rabi_fit = fit, pi_amp = amp\<rparr>)))))))"

text \<open>A computation with the events of the accessor calls left out of its trace.\<close>

definition accessor :: "('e, 'o) event \<Rightarrow> bool" where
  "accessor ev =
     (case ev of Call_defaults _ \<Rightarrow> True | Call_configuration _ \<Rightarrow> True | _ \<Rightarrow> False)"

definition without_accessors :: "('e, 'o, 'a) py \<Rightarrow> ('e, 'o, 'a) py" where
  "without_accessors m = (fst m, filter (\<lambda>ev. \<not> accessor ev) (snd m))"

subsection \<open>Closed forms used in the statements\<close>

text \<open>
  The backend after the override cell, written as one record update, and the events of
  that cell. Lemma \<open>cell_5_run\<close> below proves that \<open>cell_5\<close> computes exactly these.
\<close>

definition overridden :: "'o backend \<Rightarrow> 'o backend" where
  "overridden b =
     b\<lparr>defaults := (defaults b)\<lparr>qubit_freq_est := [4.97 * 10 ^ 9]\<rparr>,
       configuration := (configuration b)
         \<lparr>hamiltonian := (hamiltonian (configuration b))
            (''h_str'' \<mapsto> Terms [''wq0*0.5*(I0-Z0)'', ''omegad0*X0||D0''],
             ''vars'' \<mapsto>
               Coeffs [(''wq0'', 2 * pi * (4.97 * 10 ^ 9)), (''omegad0'', 6.35 * 10 ^ 7)],
             ''qub'' \<mapsto> Dims [(''0'', 2)]),
          dt := 2.2222222222222221 / 10 ^ 10\<rparr>\<rparr>"

definition override_events :: "('e, 'o) event list" where
  "override_events =
     [Assign_qubit_freq_est [4.97 * 10 ^ 9],
      Assign_hamiltonian ''h_str'' (Terms [''wq0*0.5*(I0-Z0)'', ''omegad0*X0||D0'']),
      Assign_hamiltonian ''vars''
        (Coeffs [(''wq0'', 2 * pi * (4.97 * 10 ^ 9)), (''omegad0'', 6.35 * 10 ^ 7)]),
      Assign_hamiltonian ''qub'' (Dims [(''0'', 2)]),
      Assign_dt (2.2222222222222221 / 10 ^ 10)]"

text \<open>
  The seven steps of the flow are the seven code cells; every event belongs to the step
  of the cell that emits it. \<open>Raised\<close> marks the end of a failed run and is no step.
  The accessor calls are made in two of the cells and are no events of \<open>notebook\<close>.
\<close>

datatype step =
    Instantiate_backend
  | Override_fields
  | Build_model
  | Generate_schedules
  | Assemble_job
  | Run_simulation
  | Fit_and_plot

fun step_of :: "('e, 'o) event \<Rightarrow> step option" where
  "step_of Call_FakeArmonk = Some Instantiate_backend"
| "step_of (Assign_qubit_freq_est _) = Some Override_fields"
| "step_of (Assign_hamiltonian _ _) = Some Override_fields"
| "step_of (Assign_dt _) = Some Override_fields"
| "step_of (Call_from_backend _) = Some Build_model"
| "step_of (Call_linspace _ _ _) = Some Generate_schedules"
| "step_of (Call_DriveChannel _) = Some Generate_schedules"
| "step_of (Call_rabi_schedules _ _ _ _ _ _ _) = Some Generate_schedules"
| "step_of Call_PulseSimulator = Some Assemble_job"
| "step_of (Call_assemble _ _ _ _ _) = Some Assemble_job"
| "step_of (Call_run _ _ _) = Some Run_simulation"
| "step_of (Call_result _) = Some Run_simulation"
| "step_of (Call_RabiFitter _ _ _ _) = Some Fit_and_plot"
| "step_of (Call_pi_amplitude _ _) = Some Fit_and_plot"
| "step_of (Call_plot _ _) = Some Fit_and_plot"
| "step_of (Print _ _) = Some Fit_and_plot"
| "step_of (Call_defaults _) = None"
| "step_of (Call_configuration _) = None"
| "step_of (Raised _) = None"

text \<open>
  The exception, if any, with which the library answers the call that an event records.
  Assignments and the print statement are not library calls.
\<close>

definition exn :: "'e + 'a \<Rightarrow> 'e option" where
  "exn r = (case r of Inl e \<Rightarrow> Some e | Inr _ \<Rightarrow> None)"

fun raises :: "('e, 'o) library \<Rightarrow> ('e, 'o) event \<Rightarrow> 'e option" where
  "raises lib Call_FakeArmonk = exn (FakeArmonk lib)"
| "raises lib (Call_from_backend b) = exn (from_backend lib b)"
| "raises lib (Call_linspace start stop num) = exn (linspace lib start stop num)"
| "raises lib (Call_DriveChannel i) = exn (DriveChannel lib i)"
| "raises lib (Call_rabi_schedules amps qs w s drives im mm) =
     exn (rabi_schedules lib amps qs w s drives im mm)"
| "raises lib Call_PulseSimulator = exn (PulseSimulator lib)"
| "raises lib (Call_assemble scheds sim lvl rtn shots) =
     exn (assemble lib scheds sim lvl rtn shots)"
| "raises lib (Call_run sim qobj model) = exn (run lib sim qobj model)"
| "raises lib (Call_result job) = exn (result lib job)"
| "raises lib (Call_RabiFitter res xs qs p0) = exn (RabiFitter lib res xs qs p0)"
| "raises lib (Call_pi_amplitude fit q) = exn (pi_amplitude lib fit q)"
| "raises lib (Call_plot fit q) = exn (plot lib fit q)"
| "raises lib (Call_defaults b) = defaults_raises lib b"
| "raises lib (Call_configuration b) = configuration_raises lib b"
| "raises lib (Assign_qubit_freq_est _) = None"
| "raises lib (Assign_hamiltonian _ _) = None"
| "raises lib (Assign_dt _) = None"
| "raises lib (Print _ _) = None"
| "raises lib (Raised _) = None"

text \<open>
  A computation is \<open>unhandled\<close> for a library when it fails exactly where a library call
  raised: a failed computation stops right after the raising call, with that exception,
  and a computation that returns has made no call that raised.
\<close>

definition unhandled :: "('e, 'o) library \<Rightarrow> ('e, 'o, 'a) py \<Rightarrow> bool" where
  "unhandled lib m =
     (case m of
        (Inl e, t) \<Rightarrow>
          (\<exists>t' ev. t = t' @ [ev, Raised e] \<and> raises lib ev = Some e \<and>
                   (\<forall>ev' \<in> set t'. raises lib ev' = None))
      | (Inr x, t) \<Rightarrow> (\<forall>ev \<in> set t. raises lib ev = None))"

subsection \<open>A stub library to run the notebook on\<close>

text \<open>
  Library objects are strings naming them. The stub backend carries a Hamiltonian that
  differs from the overriding one, and attributes the notebook does not touch.
\<close>

definition stub_backend :: "string backend" where
  "stub_backend =
     \<lparr>defaults =
        \<lparr>qubit_freq_est = [4.9744 * 10 ^ 9],
         instruction_schedule_map = ''inst_map'',
         defaults_other = [''meas_freq_est'' \<mapsto> ''[6.99]'']\<rparr>,
      configuration =
        \<lparr>hamiltonian =
           [''description'' \<mapsto> Opaque ''two level system'',
            ''h_str'' \<mapsto> Terms [''wq0/2*(I0-Z0)'', ''omegad0*X0||D0''],
            ''vars'' \<mapsto> Coeffs [(''wq0'', 31.25 * 10 ^ 9), (''omegad0'', 0.1 * 10 ^ 9)],
            ''qub'' \<mapsto> Dims [(''0'', 3)]],
         dt = 3.5 / 10 ^ 9,
         meas_map = ''[[0]]'',
         configuration_other = [''backend_name'' \<mapsto> ''fake_armonk'']\<rparr>,
      backend_other = [''time_alive'' \<mapsto> ''10'']\<rparr>"

definition stub_library :: "(string, string) library" where
  "stub_library =
     \<lparr>FakeArmonk = Inr stub_backend,
      from_backend = (\<lambda>b. Inr ''model''),
      DriveChannel = (\<lambda>i. Inr ''d0''),
      rabi_schedules = (\<lambda>amps qs w s drives im mm. Inr (map (\<lambda>a. ''schedule'') amps, ''xdata'')),
      PulseSimulator = Inr ''pulse_simulator'',
      assemble = (\<lambda>scheds sim lvl rtn shots. Inr ''qobj''),
      run = (\<lambda>sim qobj model. Inr ''job''),
      result = (\<lambda>job. Inr ''result''),
      RabiFitter = (\<lambda>res xs qs p0. Inr ''fitter''),
      pi_amplitude = (\<lambda>fit q. Inr 0.348467),
      plot = (\<lambda>fit q. Inr ''axes''),
      linspace = (\<lambda>start stop num. Inr [start, 0.5, stop]),
      defaults_raises = (\<lambda>b. None),
      configuration_raises = (\<lambda>b. None)\<rparr>"

definition stub_namespace :: "string namespace" where
  "stub_namespace =
     \<lparr>armonk_backend = overridden stub_backend,
      freq_est = 4.97 * 10 ^ 9,
      drive_est = 6.35 * 10 ^ 7,
      armonk_model = ''model'',
      rabi = \<lparr>qubits = [0], num_exps = 64, drive_amps = [0, 0.5, 1],
               drive_duration = 2048, drive_sigma = 256, drive_channels = [''d0''],
               rabi_schedules_list = [''schedule'', ''schedule'', ''schedule''],
               xdata = ''xdata''\<rparr>,
      backend_sim = ''pulse_simulator'',
      rabi_qobj = ''qobj'',
      sim_result = ''result'',
      rabi_fit = ''fitter'',
      pi_amp = 0.348467\<rparr>"

definition stub_trace :: "(string, string) event list" where
  "stub_trace =
     Call_FakeArmonk # override_events @
     [Call_from_backend (overridden stub_backend),
      Call_linspace 0 1 64,
      Call_DriveChannel 0,
      Call_rabi_schedules [0, 0.5, 1] [0] 2048 256 [''d0''] ''inst_map'' ''[[0]]'',
      Call_PulseSimulator,
      Call_assemble [''schedule'', ''schedule'', ''schedule''] ''pulse_simulator'' 1 ''avg'' 512,
      Call_run ''pulse_simulator'' ''qobj'' ''model'',
      Call_result ''job'',
      Call_RabiFitter ''result'' ''xdata'' [0] [1.5, 2, 0, 0],
      Call_pi_amplitude ''fitter'' 0,
      Call_plot ''fitter'' 0,
      Print ''Pi Amp: %f'' 0.348467]"

text \<open>
  The same library, except that \<^verbatim>\<open>configuration()\<close> raises. The run of \<open>notebook_calls\<close> on
  it ends in the override cell, at the first call of \<^verbatim>\<open>configuration()\<close>.
\<close>

definition failing_library :: "(string, string) library" where
  "failing_library = stub_library\<lparr>configuration_raises := (\<lambda>b. Some ''QiskitError'')\<rparr>"

definition failing_trace :: "(string, string) event list" where
  "failing_trace =
     [Call_FakeArmonk,
      Call_defaults stub_backend,
      Assign_qubit_freq_est [4.97 * 10 ^ 9],
      Call_configuration
        (stub_backend\<lparr>defaults := (defaults stub_backend)\<lparr>qubit_freq_est := [4.97 * 10 ^ 9]\<rparr>\<rparr>),
      Raised ''QiskitError'']"

section \<open>Properties\<close>

subsection \<open>Computations\<close>

lemma ret_Inr: "(ret x = (Inr y, t)) = (y = x \<and> t = [])"
  by (auto simp: ret_def)

lemma emit_Inr: "(emit ev x = (Inr y, t)) = (y = x \<and> t = [ev])"
  by (auto simp: emit_def)

lemma call_Inr: "(call ev r = (Inr y, t)) = (r = Inr y \<and> t = [ev])"
  by (auto simp: call_def split: sum.splits)

lemma bnd_Inr:
  "(bnd m f = (Inr y, t)) = (\<exists>x t1 t2. m = (Inr x, t1) \<and> f x = (Inr y, t2) \<and> t = t1 @ t2)"
  by (auto simp: bnd_def split: prod.splits sum.splits)

lemmas call_defs =
  call_FakeArmonk_def call_from_backend_def call_linspace_def call_DriveChannel_def
  call_rabi_schedules_def
  call_PulseSimulator_def call_assemble_def call_run_def call_result_def
  call_RabiFitter_def call_pi_amplitude_def call_plot_def print_def

lemmas assign_defs = assign_qubit_freq_est_def assign_hamiltonian_def assign_dt_def

lemma cell_5_run:
  "cell_5 b = (Inr (4.97 * 10 ^ 9, 6.35 * 10 ^ 7, overridden b), override_events)"
  by (simp add: cell_5_def Let_def bnd_def ret_def emit_def assign_defs
      overridden_def override_events_def)

text \<open>A run of the notebook returns exactly when every call returns, one after the other.\<close>

lemma notebook_success:
  "(notebook lib = (Inr ns, t)) =
   (\<exists>b0 ch job ax.
      FakeArmonk lib = Inr b0 \<and>
      armonk_backend ns = overridden b0 \<and>
      freq_est ns = 4.97 * 10 ^ 9 \<and>
      drive_est ns = 6.35 * 10 ^ 7 \<and>
      from_backend lib (armonk_backend ns) = Inr (armonk_model ns) \<and>
      linspace lib 0 1 64 = Inr (drive_amps (rabi ns)) \<and>
      DriveChannel lib 0 = Inr ch \<and>
      qubits (rabi ns) = [0] \<and> num_exps (rabi ns) = 64 \<and>
      drive_duration (rabi ns) = 2048 \<and> drive_sigma (rabi ns) = 256 \<and>
      drive_channels (rabi ns) = [ch] \<and>
      rabi_schedules lib (drive_amps (rabi ns)) (qubits (rabi ns)) (drive_duration (rabi ns))
          (drive_sigma (rabi ns)) (drive_channels (rabi ns))
          (instruction_schedule_map (defaults (armonk_backend ns)))
          (meas_map (configuration (armonk_backend ns)))
        = Inr (rabi_schedules_list (rabi ns), xdata (rabi ns)) \<and>
      PulseSimulator lib = Inr (backend_sim ns) \<and>
      assemble lib (rabi_schedules_list (rabi ns)) (backend_sim ns) 1 ''avg'' 512
        = Inr (rabi_qobj ns) \<and>
      run lib (backend_sim ns) (rabi_qobj ns) (armonk_model ns) = Inr job \<and>
      result lib job = Inr (sim_result ns) \<and>
      RabiFitter lib (sim_result ns) (xdata (rabi ns)) (qubits (rabi ns)) [1.5, 2, 0, 0]
        = Inr (rabi_fit ns) \<and>
      pi_amplitude lib (rabi_fit ns) 0 = Inr (pi_amp ns) \<and>
      plot lib (rabi_fit ns) 0 = Inr ax \<and>
      t = Call_FakeArmonk # override_events @
          [Call_from_backend (armonk_backend ns),
           Call_linspace 0 1 64,
           Call_DriveChannel 0,
           Call_rabi_schedules (drive_amps (rabi ns)) (qubits (rabi ns))
             (drive_duration (rabi ns)) (drive_sigma (rabi ns)) (drive_channels (rabi ns))
             (instruction_schedule_map (defaults (armonk_backend ns)))
             (meas_map (configuration (armonk_backend ns))),
           Call_PulseSimulator,
           Call_assemble (rabi_schedules_list (rabi ns)) (backend_sim ns) 1 ''avg'' 512,
           Call_run (backend_sim ns) (rabi_qobj ns) (armonk_model ns),
           Call_result job,
           Call_RabiFitter (sim_result ns) (xdata (rabi ns)) (qubits (rabi ns)) [1.5, 2, 0, 0],
           Call_pi_amplitude (rabi_fit ns) 0,
           Call_plot (rabi_fit ns) 0,
           Print ''Pi Amp: %f'' (pi_amp ns)])"
  unfolding notebook_def cell_4_def cell_6_def cell_7_def cell_8_def cell_9_def cell_10_def
    call_defs Let_def
  apply (cases ns; cases "rabi ns")
  apply (simp add: bnd_Inr call_Inr emit_Inr ret_Inr cell_5_run split_paired_all)
  apply (rule iffI; clarsimp)
  done

lemma stub_run: "notebook stub_library = (Inr stub_namespace, stub_trace)"
  by (simp add: notebook_success stub_library_def stub_namespace_def stub_trace_def
      overridden_def stub_backend_def)

subsection \<open>The override cell\<close>

text \<open>
  Claim C2. The override cell makes exactly five assignments: to the frequency estimate
  \<^verbatim>\<open>defaults().qubit_freq_est\<close>, to the items \<^verbatim>\<open>'h_str'\<close>, \<^verbatim>\<open>'vars'\<close> and \<^verbatim>\<open>'qub'\<close> of the
  dictionary \<^verbatim>\<open>configuration().hamiltonian\<close>, and to \<^verbatim>\<open>configuration().dt\<close>. It always
  returns; in the backend it returns, these five hold the assigned values, every other
  item of the Hamiltonian dictionary and every other field of the defaults, of the
  configuration and of the backend is what it was before.
\<close>

theorem override_mutates_exactly_five_fields:
  "\<exists>b'. (cell_5 b :: ('e, 'o, real \<times> real \<times> 'o backend) py) =
          (Inr (4.97 * 10 ^ 9, 6.35 * 10 ^ 7, b'),
           [Assign_qubit_freq_est [4.97 * 10 ^ 9],
            Assign_hamiltonian ''h_str'' (Terms [''wq0*0.5*(I0-Z0)'', ''omegad0*X0||D0'']),
            Assign_hamiltonian ''vars''
              (Coeffs [(''wq0'', 2 * pi * (4.97 * 10 ^ 9)), (''omegad0'', 6.35 * 10 ^ 7)]),
            Assign_hamiltonian ''qub'' (Dims [(''0'', 2)]),
            Assign_dt (2.2222222222222221 / 10 ^ 10)]) \<and>
        qubit_freq_est (defaults b') = [4.97 * 10 ^ 9] \<and>
        hamiltonian (configuration b') =
          (hamiltonian (configuration b))
            (''h_str'' \<mapsto> Terms [''wq0*0.5*(I0-Z0)'', ''omegad0*X0||D0''],
             ''vars'' \<mapsto>
               Coeffs [(''wq0'', 2 * pi * (4.97 * 10 ^ 9)), (''omegad0'', 6.35 * 10 ^ 7)],
             ''qub'' \<mapsto> Dims [(''0'', 2)]) \<and>
        dt (configuration b') = 2.2222222222222221 / 10 ^ 10 \<and>
        instruction_schedule_map (defaults b') = instruction_schedule_map (defaults b) \<and>
        defaults_other (defaults b') = defaults_other (defaults b) \<and>
        meas_map (configuration b') = meas_map (configuration b) \<and>
        configuration_other (configuration b') = configuration_other (configuration b) \<and>
        backend_other b' = backend_other b"
  by (rule exI [of _ "overridden b"])
     (simp add: cell_5_run, simp add: overridden_def override_events_def)

subsection \<open>The flow of a run\<close>

text \<open>
  Claim C1. In a run of the notebook in which every call returns, the events, each
  counted to the step (code cell) that emits it, form exactly the sequence of the seven
  steps: instantiate the backend, override its fields, build the model with
  \<^verbatim>\<open>from_backend\<close>, generate the schedules with \<^verbatim>\<open>rabi_schedules\<close>, \<^verbatim>\<open>assemble\<close>, \<^verbatim>\<open>run\<close>,
  and fit and plot with \<^verbatim>\<open>RabiFitter\<close>; no step occurs twice, none is missing, none is out
  of order. Each call takes its arguments from the values returned by earlier calls, as
  the chain of equations and the trace show.
\<close>

theorem notebook_performs_seven_steps_in_order:
  assumes "notebook lib = (Inr ns, t)"
  shows "remdups_adj (List.map_filter step_of t) =
           [Instantiate_backend, Override_fields, Build_model, Generate_schedules,
            Assemble_job, Run_simulation, Fit_and_plot] \<and>
         (\<exists>b0 ch job ax.
            FakeArmonk lib = Inr b0 \<and>
            fst (cell_5 b0 :: ('e, 'o, real \<times> real \<times> 'o backend) py) =
              Inr (freq_est ns, drive_est ns, armonk_backend ns) \<and>
            from_backend lib (armonk_backend ns) = Inr (armonk_model ns) \<and>
            linspace lib 0 1 64 = Inr (drive_amps (rabi ns)) \<and>
            DriveChannel lib 0 = Inr ch \<and>
            rabi_schedules lib (drive_amps (rabi ns)) (qubits (rabi ns))
                (drive_duration (rabi ns)) (drive_sigma (rabi ns)) [ch]
                (instruction_schedule_map (defaults (armonk_backend ns)))
                (meas_map (configuration (armonk_backend ns)))
              = Inr (rabi_schedules_list (rabi ns), xdata (rabi ns)) \<and>
            PulseSimulator lib = Inr (backend_sim ns) \<and>
            assemble lib (rabi_schedules_list (rabi ns)) (backend_sim ns) 1 ''avg'' 512
              = Inr (rabi_qobj ns) \<and>
            run lib (backend_sim ns) (rabi_qobj ns) (armonk_model ns) = Inr job \<and>
            result lib job = Inr (sim_result ns) \<and>
            RabiFitter lib (sim_result ns) (xdata (rabi ns)) (qubits (rabi ns))
                [1.5, 2, 0, 0]
              = Inr (rabi_fit ns) \<and>
            pi_amplitude lib (rabi_fit ns) 0 = Inr (pi_amp ns) \<and>
            plot lib (rabi_fit ns) 0 = Inr ax \<and>
            t = [Call_FakeArmonk :: ('e, 'o) event] @ override_events @
                [Call_from_backend (armonk_backend ns),
                 Call_linspace 0 1 64,
           Call_DriveChannel 0,
                 Call_rabi_schedules (drive_amps (rabi ns)) (qubits (rabi ns))
                   (drive_duration (rabi ns)) (drive_sigma (rabi ns)) [ch]
                   (instruction_schedule_map (defaults (armonk_backend ns)))
                   (meas_map (configuration (armonk_backend ns))),
                 Call_PulseSimulator,
                 Call_assemble (rabi_schedules_list (rabi ns)) (backend_sim ns) 1 ''avg'' 512,
                 Call_run (backend_sim ns) (rabi_qobj ns) (armonk_model ns),
                 Call_result job,
                 Call_RabiFitter (sim_result ns) (xdata (rabi ns)) (qubits (rabi ns))
                   [1.5, 2, 0, 0],
                 Call_pi_amplitude (rabi_fit ns) 0,
                 Call_plot (rabi_fit ns) 0,
                 Print ''Pi Amp: %f'' (pi_amp ns)])"
proof -
  from assms obtain b0 ch job ax where run:
    "FakeArmonk lib = Inr b0" "armonk_backend ns = overridden b0"
    "freq_est ns = 4.97 * 10 ^ 9" "drive_est ns = 6.35 * 10 ^ 7"
    "from_backend lib (armonk_backend ns) = Inr (armonk_model ns)"
    "linspace lib 0 1 64 = Inr (drive_amps (rabi ns))"
    "DriveChannel lib 0 = Inr ch" "drive_channels (rabi ns) = [ch]"
    "rabi_schedules lib (drive_amps (rabi ns)) (qubits (rabi ns)) (drive_duration (rabi ns))
          (drive_sigma (rabi ns)) (drive_channels (rabi ns))
          (instruction_schedule_map (defaults (armonk_backend ns)))
          (meas_map (configuration (armonk_backend ns)))
        = Inr (rabi_schedules_list (rabi ns), xdata (rabi ns))"
    "PulseSimulator lib = Inr (backend_sim ns)"
    "assemble lib (rabi_schedules_list (rabi ns)) (backend_sim ns) 1 ''avg'' 512
        = Inr (rabi_qobj ns)"
    "run lib (backend_sim ns) (rabi_qobj ns) (armonk_model ns) = Inr job"
    "result lib job = Inr (sim_result ns)"
    "RabiFitter lib (sim_result ns) (xdata (rabi ns)) (qubits (rabi ns)) [1.5, 2, 0, 0]
        = Inr (rabi_fit ns)"
    "pi_amplitude lib (rabi_fit ns) 0 = Inr (pi_amp ns)"
    "plot lib (rabi_fit ns) 0 = Inr ax"
    and trace: "t = Call_FakeArmonk # override_events @
          [Call_from_backend (armonk_backend ns),
           Call_linspace 0 1 64,
           Call_DriveChannel 0,
           Call_rabi_schedules (drive_amps (rabi ns)) (qubits (rabi ns))
             (drive_duration (rabi ns)) (drive_sigma (rabi ns)) (drive_channels (rabi ns))
             (instruction_schedule_map (defaults (armonk_backend ns)))
             (meas_map (configuration (armonk_backend ns))),
           Call_PulseSimulator,
           Call_assemble (rabi_schedules_list (rabi ns)) (backend_sim ns) 1 ''avg'' 512,
           Call_run (backend_sim ns) (rabi_qobj ns) (armonk_model ns),
           Call_result job,
           Call_RabiFitter (sim_result ns) (xdata (rabi ns)) (qubits (rabi ns)) [1.5, 2, 0, 0],
           Call_pi_amplitude (rabi_fit ns) 0,
           Call_plot (rabi_fit ns) 0,
           Print ''Pi Amp: %f'' (pi_amp ns)]"
    unfolding notebook_success by blast
  have steps: "remdups_adj (List.map_filter step_of t) =
           [Instantiate_backend, Override_fields, Build_model, Generate_schedules,
            Assemble_job, Run_simulation, Fit_and_plot]"
    unfolding trace by (simp add: override_events_def List.map_filter_simps)
  have five: "fst (cell_5 b0 :: ('e, 'o, real \<times> real \<times> 'o backend) py) =
              Inr (freq_est ns, drive_est ns, armonk_backend ns)"
    by (simp add: cell_5_run run)
  show ?thesis
    using steps five run trace by auto
qed

theorem notebook_performs_seven_steps_in_order_witness:
  "notebook stub_library = (Inr stub_namespace, stub_trace) \<and>
   remdups_adj (List.map_filter step_of stub_trace) =
     [Instantiate_backend, Override_fields, Build_model, Generate_schedules,
      Assemble_job, Run_simulation, Fit_and_plot]"
  using notebook_performs_seven_steps_in_order [OF stub_run] stub_run by simp

subsection \<open>The calls and what they are given\<close>

text \<open>
  Claim C4. The schedule generator is called with the amplitude sweep \<^verbatim>\<open>drive_amps\<close>
  (what \<^verbatim>\<open>np.linspace(0, 1.0, 64)\<close> returned), the
  qubit list \<^verbatim>\<open>qubits\<close>, the pulse shape parameters \<^verbatim>\<open>pulse_width = drive_duration\<close> and
  \<^verbatim>\<open>pulse_sigma = drive_sigma\<close>, and the instruction schedule map of the backend's
  defaults (next to the drive channels and the measurement map). It returns a pair: the
  list of schedules and \<^verbatim>\<open>xdata\<close>, and that \<^verbatim>\<open>xdata\<close> is later the second argument of
  the fitter.
\<close>

theorem rabi_schedules_arguments_and_pair:
  assumes "notebook lib = (Inr ns, t)"
  shows "\<exists>ch. rabi_schedules lib (drive_amps (rabi ns)) (qubits (rabi ns))
                 (drive_duration (rabi ns)) (drive_sigma (rabi ns)) [ch]
                 (instruction_schedule_map (defaults (armonk_backend ns)))
                 (meas_map (configuration (armonk_backend ns)))
               = Inr (rabi_schedules_list (rabi ns), xdata (rabi ns)) \<and>
              DriveChannel lib 0 = Inr ch \<and>
              linspace lib 0 1 64 = Inr (drive_amps (rabi ns)) \<and>
              qubits (rabi ns) = [0] \<and>
              drive_duration (rabi ns) = 2048 \<and>
              drive_sigma (rabi ns) = 256 \<and>
              RabiFitter lib (sim_result ns) (xdata (rabi ns)) (qubits (rabi ns))
                  [1.5, 2, 0, 0]
                = Inr (rabi_fit ns) \<and>
              count_list t
                (Call_rabi_schedules (drive_amps (rabi ns)) (qubits (rabi ns))
                   (drive_duration (rabi ns)) (drive_sigma (rabi ns)) [ch]
                   (instruction_schedule_map (defaults (armonk_backend ns)))
                   (meas_map (configuration (armonk_backend ns)))) = 1"
  using assms unfolding notebook_success
  by (auto simp: override_events_def)

theorem rabi_schedules_arguments_and_pair_witness:
  "notebook stub_library = (Inr stub_namespace, stub_trace) \<and>
   (\<exists>ch. rabi_schedules stub_library (drive_amps (rabi stub_namespace)) [0] 2048 256 [ch]
           (instruction_schedule_map (defaults (armonk_backend stub_namespace)))
           (meas_map (configuration (armonk_backend stub_namespace)))
         = Inr (rabi_schedules_list (rabi stub_namespace), xdata (rabi stub_namespace)))"
  using rabi_schedules_arguments_and_pair [OF stub_run] stub_run by auto

text \<open>
  Claim C5. \<^verbatim>\<open>assemble\<close> is called with the generated schedules, the \<^verbatim>\<open>PulseSimulator\<close>
  instance as backend, measurement level 1, return type \<^verbatim>\<open>'avg'\<close> and 512 shots. What it
  returns is \<^verbatim>\<open>rabi_qobj\<close>, which is then the first argument of the simulator's \<^verbatim>\<open>run\<close>.
\<close>

theorem assemble_arguments_and_qobj:
  assumes "notebook lib = (Inr ns, t)"
  shows "PulseSimulator lib = Inr (backend_sim ns) \<and>
         assemble lib (rabi_schedules_list (rabi ns)) (backend_sim ns) 1 ''avg'' 512
           = Inr (rabi_qobj ns) \<and>
         (\<exists>ch. rabi_schedules lib (drive_amps (rabi ns)) (qubits (rabi ns))
                 (drive_duration (rabi ns)) (drive_sigma (rabi ns)) [ch]
                 (instruction_schedule_map (defaults (armonk_backend ns)))
                 (meas_map (configuration (armonk_backend ns)))
               = Inr (rabi_schedules_list (rabi ns), xdata (rabi ns))) \<and>
         (\<exists>job. run lib (backend_sim ns) (rabi_qobj ns) (armonk_model ns) = Inr job) \<and>
         (\<exists>t1 t2. t = t1 @
            [Call_PulseSimulator,
             Call_assemble (rabi_schedules_list (rabi ns)) (backend_sim ns) 1 ''avg'' 512,
             Call_run (backend_sim ns) (rabi_qobj ns) (armonk_model ns)] @ t2)"
proof -
  from assms obtain ch job where run:
    "rabi_schedules lib (drive_amps (rabi ns)) (qubits (rabi ns)) (drive_duration (rabi ns))
          (drive_sigma (rabi ns)) (drive_channels (rabi ns))
          (instruction_schedule_map (defaults (armonk_backend ns)))
          (meas_map (configuration (armonk_backend ns)))
        = Inr (rabi_schedules_list (rabi ns), xdata (rabi ns))"
    "drive_channels (rabi ns) = [ch]"
    "PulseSimulator lib = Inr (backend_sim ns)"
    "assemble lib (rabi_schedules_list (rabi ns)) (backend_sim ns) 1 ''avg'' 512
        = Inr (rabi_qobj ns)"
    "run lib (backend_sim ns) (rabi_qobj ns) (armonk_model ns) = Inr job"
    and trace: "t = (Call_FakeArmonk # override_events @
          [Call_from_backend (armonk_backend ns),
           Call_linspace 0 1 64,
           Call_DriveChannel 0,
           Call_rabi_schedules (drive_amps (rabi ns)) (qubits (rabi ns))
             (drive_duration (rabi ns)) (drive_sigma (rabi ns)) (drive_channels (rabi ns))
             (instruction_schedule_map (defaults (armonk_backend ns)))
             (meas_map (configuration (armonk_backend ns)))]) @
          [Call_PulseSimulator,
           Call_assemble (rabi_schedules_list (rabi ns)) (backend_sim ns) 1 ''avg'' 512,
           Call_run (backend_sim ns) (rabi_qobj ns) (armonk_model ns)] @
          [Call_result job,
           Call_RabiFitter (sim_result ns) (xdata (rabi ns)) (qubits (rabi ns)) [1.5, 2, 0, 0],
           Call_pi_amplitude (rabi_fit ns) 0,
           Call_plot (rabi_fit ns) 0,
           Print ''Pi Amp: %f'' (pi_amp ns)]"
    unfolding notebook_success by auto
  from trace have "\<exists>t1 t2. t = t1 @
            [Call_PulseSimulator,
             Call_assemble (rabi_schedules_list (rabi ns)) (backend_sim ns) 1 ''avg'' 512,
             Call_run (backend_sim ns) (rabi_qobj ns) (armonk_model ns)] @ t2"
    by blast
  with run show ?thesis by auto
qed

theorem assemble_arguments_and_qobj_witness:
  "notebook stub_library = (Inr stub_namespace, stub_trace) \<and>
   assemble stub_library (rabi_schedules_list (rabi stub_namespace))
     (backend_sim stub_namespace) 1 ''avg'' 512 = Inr (rabi_qobj stub_namespace)"
  using assemble_arguments_and_qobj [OF stub_run] stub_run by simp

text \<open>
  Claim C6. The fitter is constructed from the simulation result, \<^verbatim>\<open>xdata\<close>, the qubit
  list and the initial guess \<^verbatim>\<open>fit_p0 = [1.5, 2, 0, 0]\<close>. On the constructed object the
  notebook calls \<^verbatim>\<open>pi_amplitude\<close>, which yields \<^verbatim>\<open>pi_amp\<close>, and \<^verbatim>\<open>plot\<close>, both with qubit
  index 0.
\<close>

theorem fitter_construction_and_methods:
  assumes "notebook lib = (Inr ns, t)"
  shows "RabiFitter lib (sim_result ns) (xdata (rabi ns)) (qubits (rabi ns)) [1.5, 2, 0, 0]
           = Inr (rabi_fit ns) \<and>
         qubits (rabi ns) = [0] \<and>
         pi_amplitude lib (rabi_fit ns) 0 = Inr (pi_amp ns) \<and>
         (\<exists>ax. plot lib (rabi_fit ns) 0 = Inr ax) \<and>
         (\<exists>job. result lib job = Inr (sim_result ns)) \<and>
         (\<exists>t1. t = t1 @
            [Call_RabiFitter (sim_result ns) (xdata (rabi ns)) (qubits (rabi ns))
               [1.5, 2, 0, 0],
             Call_pi_amplitude (rabi_fit ns) 0,
             Call_plot (rabi_fit ns) 0,
             Print ''Pi Amp: %f'' (pi_amp ns)])"
  using assms unfolding notebook_success
  by (auto simp: override_events_def)

theorem fitter_construction_and_methods_witness:
  "notebook stub_library = (Inr stub_namespace, stub_trace) \<and>
   RabiFitter stub_library (sim_result stub_namespace) (xdata (rabi stub_namespace))
     (qubits (rabi stub_namespace)) [1.5, 2, 0, 0] = Inr (rabi_fit stub_namespace) \<and>
   qubits (rabi stub_namespace) = [0] \<and>
   pi_amplitude stub_library (rabi_fit stub_namespace) 0 = Inr (pi_amp stub_namespace)"
  using fitter_construction_and_methods [OF stub_run] stub_run by blast




subsection \<open>One overridden configuration\<close>



subsection \<open>Exceptions\<close>

lemma unhandled_ret: "unhandled lib (ret x)"
  by (simp add: unhandled_def ret_def)

lemma unhandled_emit: "raises lib ev = None \<Longrightarrow> unhandled lib (emit ev x)"
  by (simp add: unhandled_def emit_def)

lemma unhandled_call: "raises lib ev = exn r \<Longrightarrow> unhandled lib (call ev r)"
proof (cases r)
  case (Inl e)
  assume "raises lib ev = exn r"
  with Inl have "raises lib ev = Some e"
    by (simp add: exn_def)
  moreover have "[ev, Raised e] = [] @ [ev, Raised e]"
    by simp
  ultimately show ?thesis
    unfolding unhandled_def call_def Inl by (simp del: append_Nil)
next
  case (Inr x)
  assume "raises lib ev = exn r"
  with Inr show ?thesis
    by (simp add: unhandled_def call_def exn_def)
qed

lemma unhandled_bnd:
  assumes m: "unhandled lib m" and f: "\<And>x. unhandled lib (f x)"
  shows "unhandled lib (bnd m f)"
proof (cases m)
  case (Pair r t)
  show ?thesis
  proof (cases r)
    case (Inl e)
    with Pair m show ?thesis
      by (simp add: bnd_def unhandled_def)
  next
    case (Inr x)
    with Pair m have quiet: "\<forall>ev \<in> set t. raises lib ev = None"
      by (simp add: unhandled_def)
    obtain r' u where fx: "f x = (r', u)"
      by (cases "f x")
    have res: "bnd m f = (r', t @ u)"
      by (simp add: bnd_def Pair Inr fx)
    show ?thesis
    proof (cases r')
      case (Inl e)
      with f [of x] fx obtain u' ev where u: "u = u' @ [ev, Raised e]"
        and ev: "raises lib ev = Some e" and u': "\<forall>ev' \<in> set u'. raises lib ev' = None"
        by (auto simp: unhandled_def)
      have "t @ u = (t @ u') @ [ev, Raised e]"
        by (simp add: u)
      moreover have "\<forall>ev' \<in> set (t @ u'). raises lib ev' = None"
        using quiet u' by auto
      ultimately have "\<exists>t' ev. t @ u = t' @ [ev, Raised e] \<and> raises lib ev = Some e \<and>
          (\<forall>ev' \<in> set t'. raises lib ev' = None)"
        using ev by blast
      then show ?thesis
        by (simp add: res Inl unhandled_def)
    next
      case (Inr y)
      with f [of x] fx have "\<forall>ev \<in> set u. raises lib ev = None"
        by (simp add: unhandled_def)
      with quiet show ?thesis
        by (auto simp: res Inr unhandled_def)
    qed
  qed
qed

lemma unhandled_case_prod:
  "(\<And>a b. unhandled lib (f a b)) \<Longrightarrow> unhandled lib (case_prod f p)"
  by (cases p) simp

lemma unhandled_cell_5: "unhandled lib (cell_5 b)"
  by (simp add: cell_5_run unhandled_def override_events_def)

lemma unhandled_notebook: "unhandled lib (notebook lib)"
  unfolding notebook_def cell_4_def cell_6_def cell_7_def cell_8_def cell_9_def cell_10_def
    call_defs Let_def
  by (intro unhandled_bnd unhandled_case_prod unhandled_call unhandled_emit unhandled_ret
      unhandled_cell_5) simp_all

lemma exn_accessor: "exn (case d of None \<Rightarrow> Inr x | Some e \<Rightarrow> Inl e) = d"
  by (cases d) (simp_all add: exn_def)

lemma unhandled_call_defaults: "unhandled lib (call_defaults lib b)"
  unfolding call_defaults_def by (rule unhandled_call) (simp add: exn_accessor)

lemma unhandled_call_configuration: "unhandled lib (call_configuration lib b)"
  unfolding call_configuration_def by (rule unhandled_call) (simp add: exn_accessor)

lemma unhandled_notebook_calls: "unhandled lib (notebook_calls lib)"
  unfolding notebook_calls_def cell_4_def cell_5_calls_def cell_6_def cell_7_calls_def
    cell_8_def cell_9_def cell_10_def call_defs assign_defs Let_def
  by (intro unhandled_bnd unhandled_case_prod unhandled_call_defaults
      unhandled_call_configuration unhandled_call unhandled_emit unhandled_ret) simp_all

text \<open>
  On a library whose accessors return, \<open>notebook\<close> is \<open>notebook_calls\<close> with the accessor
  events left out.
\<close>

lemma without_accessors_ret: "without_accessors (ret x) = ret x"
  by (simp add: without_accessors_def ret_def)

lemma without_accessors_emit: "\<not> accessor ev \<Longrightarrow> without_accessors (emit ev x) = emit ev x"
  by (simp add: without_accessors_def emit_def)

lemma without_accessors_call: "\<not> accessor ev \<Longrightarrow> without_accessors (call ev r) = call ev r"
  by (cases r) (simp_all add: without_accessors_def call_def accessor_def)

lemma without_accessors_bnd:
  "without_accessors (bnd m f) = bnd (without_accessors m) (\<lambda>x. without_accessors (f x))"
  by (cases m; cases "fst m")
     (auto simp: without_accessors_def bnd_def split: prod.splits)

lemma without_accessors_case_prod:
  "without_accessors (case_prod f p) = (case p of (a, b) \<Rightarrow> without_accessors (f a b))"
  by (cases p) simp

lemma without_accessors_call_defaults:
  "defaults_raises lib b = None \<Longrightarrow> without_accessors (call_defaults lib b) = ret (defaults b)"
  by (simp add: without_accessors_def call_defaults_def call_def ret_def accessor_def)

lemma without_accessors_call_configuration:
  "configuration_raises lib b = None \<Longrightarrow>
   without_accessors (call_configuration lib b) = ret (configuration b)"
  by (simp add: without_accessors_def call_configuration_def call_def ret_def accessor_def)

lemma bnd_ret: "bnd (ret x) f = f x"
  by (cases "f x") (simp add: bnd_def ret_def)

lemma notebook_calls_without_accessors:
  assumes "\<And>b. defaults_raises lib b = None" and "\<And>b. configuration_raises lib b = None"
  shows "without_accessors (notebook_calls lib) = notebook lib"
  unfolding notebook_calls_def notebook_def cell_4_def cell_5_def cell_5_calls_def cell_6_def
    cell_7_def cell_7_calls_def cell_8_def cell_9_def cell_10_def call_defs assign_defs Let_def
  by (simp add: without_accessors_bnd without_accessors_case_prod without_accessors_call
      without_accessors_emit without_accessors_ret without_accessors_call_defaults
      without_accessors_call_configuration bnd_ret assms accessor_def)

lemma failing_run: "notebook_calls failing_library = (Inl ''QiskitError'', failing_trace)"
  unfolding notebook_calls_def cell_4_def cell_5_calls_def call_defs assign_defs Let_def
    call_defaults_def call_configuration_def
  by (simp add: bnd_def call_def emit_def failing_library_def stub_library_def
      failing_trace_def)

text \<open>
  Claim C7. The notebook has no exception handler and no check of its own round any of
  its library calls, the calls of the accessors \<^verbatim>\<open>defaults()\<close> and \<^verbatim>\<open>configuration()\<close> and
  of \<^verbatim>\<open>np.linspace\<close> among them: a run ends with an exception \<open>e\<close> exactly when one of the
  calls it made raised \<open>e\<close>; the run then stops right after that call, so nothing catches
  \<open>e\<close> and no later statement runs; and a run returns exactly when none of the calls it
  made raised.
\<close>

theorem library_exceptions_propagate_unhandled:
  "(fst (notebook_calls lib) = Inl e) =
     (\<exists>ev \<in> set (snd (notebook_calls lib)). raises lib ev = Some e) \<and>
   (fst (notebook_calls lib) = Inl e) =
     (\<exists>t' ev. snd (notebook_calls lib) = t' @ [ev, Raised e] \<and> raises lib ev = Some e) \<and>
   (\<exists>ns. fst (notebook_calls lib) = Inr ns) =
     (\<forall>ev \<in> set (snd (notebook_calls lib)). raises lib ev = None)"
proof (cases "notebook_calls lib")
  case (Pair r t)
  show ?thesis
  proof (cases r)
    case (Inl e')
    with Pair unhandled_notebook_calls [of lib] obtain t' ev'
      where t: "t = t' @ [ev', Raised e']"
      and ev': "raises lib ev' = Some e'" and t': "\<forall>ev \<in> set t'. raises lib ev = None"
      by (auto simp: unhandled_def)
    have only: "ev = ev' \<and> e'' = e'" if "ev \<in> set t" "raises lib ev = Some e''" for ev e''
      using that t t' ev' by auto
    have a: "(e' = e) = (\<exists>ev \<in> set t. raises lib ev = Some e)"
      using only ev' t by fastforce
    have b: "(e' = e) = (\<exists>u ev. t = u @ [ev, Raised e] \<and> raises lib ev = Some e)"
      using ev' t by auto
    have c: "\<not> (\<forall>ev \<in> set t. raises lib ev = None)"
      using ev' t by auto
    show ?thesis
      using a b c by (simp add: Pair Inl)
  next
    case (Inr ns)
    with Pair unhandled_notebook_calls [of lib]
    have quiet: "\<forall>ev \<in> set t. raises lib ev = None"
      by (simp add: unhandled_def)
    then have "\<not> (\<exists>u ev. t = u @ [ev, Raised e] \<and> raises lib ev = Some e)"
      by auto
    with quiet show ?thesis
      by (simp add: Pair Inr)
  qed
qed

theorem library_exceptions_propagate_unhandled_witness:
  "notebook_calls failing_library = (Inl ''QiskitError'', failing_trace) \<and>
   (\<exists>ev \<in> set (snd (notebook_calls failing_library)).
      raises failing_library ev = Some ''QiskitError'') \<and>
   (\<exists>t' ev. snd (notebook_calls failing_library) = t' @ [ev, Raised ''QiskitError''] \<and>
      raises failing_library ev = Some ''QiskitError'')"
proof -
  have "fst (notebook_calls failing_library) = Inl ''QiskitError''"
    by (simp add: failing_run)
  with library_exceptions_propagate_unhandled [of failing_library "''QiskitError''"]
  show ?thesis
    using failing_run by blast
qed

end
